theory Spec2Isabelle
  imports Main
begin

unbundle bit_operations_syntax

section \<open>Constants of input\_router.py\<close>

text \<open>
  The Windows API constants the module declares at its top. Python integers are
  unbounded, so all of them are \<^typ>\<open>int\<close>; \<open>&\<close>, \<open>|\<close> and \<open><<\<close> of Python are
  \<open>AND\<close>, \<open>OR\<close> and \<^const>\<open>push_bit\<close> on \<^typ>\<open>int\<close>.
\<close>

definition KEYEVENTF_KEYUP :: int where "KEYEVENTF_KEYUP = 0x0002"
definition MOUSEEVENTF_MOVE :: int where "MOUSEEVENTF_MOVE = 0x0001"
definition MOUSEEVENTF_LEFTDOWN :: int where "MOUSEEVENTF_LEFTDOWN = 0x0002"
definition MOUSEEVENTF_LEFTUP :: int where "MOUSEEVENTF_LEFTUP = 0x0004"
definition MOUSEEVENTF_RIGHTDOWN :: int where "MOUSEEVENTF_RIGHTDOWN = 0x0008"
definition MOUSEEVENTF_RIGHTUP :: int where "MOUSEEVENTF_RIGHTUP = 0x0010"
definition MOUSEEVENTF_MIDDLEDOWN :: int where "MOUSEEVENTF_MIDDLEDOWN = 0x0020"
definition MOUSEEVENTF_MIDDLEUP :: int where "MOUSEEVENTF_MIDDLEUP = 0x0040"
definition MOUSEEVENTF_ABSOLUTE :: int where "MOUSEEVENTF_ABSOLUTE = 0x8000"

definition RI_MOUSE_LEFT_BUTTON_DOWN :: int where "RI_MOUSE_LEFT_BUTTON_DOWN = 0x0001"
definition RI_MOUSE_LEFT_BUTTON_UP :: int where "RI_MOUSE_LEFT_BUTTON_UP = 0x0002"
definition RI_MOUSE_RIGHT_BUTTON_DOWN :: int where "RI_MOUSE_RIGHT_BUTTON_DOWN = 0x0004"
definition RI_MOUSE_RIGHT_BUTTON_UP :: int where "RI_MOUSE_RIGHT_BUTTON_UP = 0x0008"
definition RI_MOUSE_MIDDLE_BUTTON_DOWN :: int where "RI_MOUSE_MIDDLE_BUTTON_DOWN = 0x0010"
definition RI_MOUSE_MIDDLE_BUTTON_UP :: int where "RI_MOUSE_MIDDLE_BUTTON_UP = 0x0020"

definition WM_KEYDOWN :: int where "WM_KEYDOWN = 0x0100"
definition WM_KEYUP :: int where "WM_KEYUP = 0x0101"
definition WM_CHAR :: int where "WM_CHAR = 0x0102"

section \<open>Data model\<close>

text \<open>
  \<open>UserSession\<close> is the dataclass of the module. \<open>process\<close> is the
  \<open>subprocess.Popen\<close> object of a launched editor (a number naming the child) and
  \<open>None\<close> for a session attached to an existing window; \<open>hwnd\<close> is
  \<open>Optional[int]\<close>.
\<close>

type_synonym popen = nat

record UserSession =
  user_id :: string
  process :: "popen option"
  hwnd :: "int option"
  project_dir :: string
  editor :: string
  pid :: int

text \<open>
  The two tables of \<open>InputRouter\<close> that routing reads and writes:
  \<open>self.device_mappings\<close> and \<open>self.user_sessions\<close>, both Python dicts keyed
  by strings.
\<close>

record InputRouter =
  device_mappings :: "string \<rightharpoonup> string"
  user_sessions :: "string \<rightharpoonup> UserSession"

text \<open>
  An event is the dict that \<open>json.loads\<close> returns for one line. The router reads it
  only through \<open>event.get(key, default)\<close>, so every field is optional here and the
  defaults are applied where the code applies them. Field values have the types of the
  upstream format: strings for \<open>device_id\<close> and \<open>type\<close>, integers for the rest.
\<close>

record event =
  ev_device_id :: "string option"
  ev_type :: "string option"
  ev_vkey :: "int option"
  ev_dx :: "int option"
  ev_dy :: "int option"
  ev_buttons :: "int option"
  ev_timestamp :: "int option"

definition dict_get :: "'a option \<Rightarrow> 'a \<Rightarrow> 'a" where
  "dict_get field dflt = (case field of None \<Rightarrow> dflt | Some v \<Rightarrow> v)"

section \<open>The operating system\<close>

text \<open>
  What the router asks of \<open>user32\<close> and of its child processes, as it stands during
  one routing pass: \<open>Popen.poll()\<close> (\<open>None\<close> while the child runs, its exit code
  afterwards), \<open>IsWindow\<close>, the top-level windows in the order \<open>EnumWindows\<close>
  reports them, the owning process of a window, \<open>IsWindowVisible\<close>, \<open>IsIconic\<close>
  and \<open>MapVirtualKeyW\<close>.
\<close>

record os_env =
  poll :: "popen \<Rightarrow> int option"
  IsWindow :: "int \<Rightarrow> bool"
  EnumWindows :: "int list"
  GetWindowThreadProcessId :: "int \<Rightarrow> int"
  IsWindowVisible :: "int \<Rightarrow> bool"
  IsIconic :: "int \<Rightarrow> bool"
  MapVirtualKeyW :: "int \<Rightarrow> int \<Rightarrow> int"

text \<open>
  The calls by which the router acts on the system, with the arguments the Python code
  passes: \<open>PostMessageW(hwnd, msg, wParam, lParam)\<close>; \<open>SendInput\<close> of one mouse
  record (\<open>dx\<close>, \<open>dy\<close>, \<open>mouseData\<close>, \<open>dwFlags\<close>) or one keyboard record
  (\<open>wVk\<close>, \<open>wScan\<close>, \<open>dwFlags\<close>); \<open>ShowWindow(hwnd, cmd)\<close>;
  \<open>SetForegroundWindow(hwnd)\<close>. Every function below returns the list of calls it
  makes, in order.
\<close>

datatype os_call =
    PostMessageW int int int int
  | SendInput_mouse int int int int
  | SendInput_keyboard int int int
  | ShowWindow int int
  | SetForegroundWindow int

section \<open>Window resolver\<close>

text \<open>
  Python truth of an \<open>Optional[int]\<close>: \<open>not session.hwnd\<close> holds for \<open>None\<close>
  and for \<open>0\<close>. Where the code hands the field to \<open>user32\<close>, \<open>None\<close> is passed as
  the null handle.
\<close>

definition falsy_hwnd :: "int option \<Rightarrow> bool" where
  "falsy_hwnd h = (h = None \<or> h = Some 0)"

definition hwnd_arg :: "int option \<Rightarrow> int" where
  "hwnd_arg h = (case h of None \<Rightarrow> 0 | Some v \<Rightarrow> v)"

definition find_window_by_pid :: "os_env \<Rightarrow> int \<Rightarrow> int option" where
  "find_window_by_pid os p =
     (case filter (\<lambda>w. GetWindowThreadProcessId os w = p \<and> IsWindowVisible os w)
             (EnumWindows os) of
        [] \<Rightarrow> None
      | w # _ \<Rightarrow> Some w)"

text \<open>
  \<open>_refresh_window_handle\<close>: the session after the call and the boolean returned.
\<close>

definition refresh_window_handle :: "os_env \<Rightarrow> UserSession \<Rightarrow> UserSession \<times> bool" where
  "refresh_window_handle os session =
     (case process session of
        None \<Rightarrow> (session, False)
      | Some p \<Rightarrow>
          if poll os p = None then
            (case find_window_by_pid os (pid session) of
               None \<Rightarrow> (session, False)
             | Some w \<Rightarrow> if w = 0 then (session, False)
                         else (session\<lparr>hwnd := Some w\<rparr>, True))
          else (session, False))"

section \<open>Input injector\<close>

text \<open>
  The records handed to \<open>SendInput\<close> are ctypes structures (\<open>MOUSEINPUT\<close>,
  \<open>KEYBDINPUT\<close>). A field of an integer type keeps the low bits of the Python
  \<open>int\<close> assigned to it, without any check: \<open>wintypes.LONG\<close> is 32 bits and
  signed, \<open>wintypes.DWORD\<close> 32 bits and unsigned, \<open>wintypes.WORD\<close> 16 bits and
  unsigned. The functions below give the value a field of each type holds after the
  assignment.
\<close>

definition LONG :: "int \<Rightarrow> int" where
  "LONG v = signed_take_bit 31 v"

definition DWORD :: "int \<Rightarrow> int" where
  "DWORD v = take_bit 32 v"

definition WORD :: "int \<Rightarrow> int" where
  "WORD v = take_bit 16 v"

definition set_foreground_window :: "os_env \<Rightarrow> int \<Rightarrow> bool \<times> os_call list" where
  "set_foreground_window os h =
     (if \<not> IsWindow os h then (False, [])
      else (True, (if IsIconic os h then [ShowWindow h 9] else []) @ [SetForegroundWindow h]))"

definition inject_keyboard :: "os_env \<Rightarrow> int \<Rightarrow> bool \<Rightarrow> os_call list" where
  "inject_keyboard os vkey key_up =
     [SendInput_keyboard (WORD vkey) (WORD (MapVirtualKeyW os vkey 0))
        (DWORD (if key_up then KEYEVENTF_KEYUP else 0))]"

definition lparam_down :: "int \<Rightarrow> int" where
  "lparam_down scan_code = push_bit 16 scan_code OR 1"

definition lparam_up :: "int \<Rightarrow> int" where
  "lparam_up scan_code = push_bit 16 scan_code OR 1 OR push_bit 30 1 OR push_bit 31 1"

definition inject_keyboard_to_window :: "os_env \<Rightarrow> int \<Rightarrow> int \<Rightarrow> os_call list" where
  "inject_keyboard_to_window os h vkey =
     (let scan_code = MapVirtualKeyW os vkey 0;
          char_code = MapVirtualKeyW os vkey 2
      in [PostMessageW h WM_KEYDOWN vkey (lparam_down scan_code)]
         @ (if char_code > 0 then [PostMessageW h WM_CHAR char_code (lparam_down scan_code)] else [])
         @ [PostMessageW h WM_KEYUP vkey (lparam_up scan_code)])"

definition inject_mouse_move :: "int \<Rightarrow> int \<Rightarrow> bool \<Rightarrow> os_call list" where
  "inject_mouse_move dx dy absolute =
     (let dwFlags = DWORD MOUSEEVENTF_MOVE;
          dwFlags = (if absolute then DWORD (dwFlags OR MOUSEEVENTF_ABSOLUTE) else dwFlags)
      in [SendInput_mouse (LONG dx) (LONG dy) (DWORD 0) dwFlags])"

text \<open>The local \<open>flags\<close> of \<open>inject_mouse_button\<close> after its six tests.\<close>

definition button_flags :: "int \<Rightarrow> int" where
  "button_flags buttons =
     (let flags = 0;
          flags = (if buttons AND RI_MOUSE_LEFT_BUTTON_DOWN \<noteq> 0
                   then flags OR MOUSEEVENTF_LEFTDOWN else flags);
          flags = (if buttons AND RI_MOUSE_LEFT_BUTTON_UP \<noteq> 0
                   then flags OR MOUSEEVENTF_LEFTUP else flags);
          flags = (if buttons AND RI_MOUSE_RIGHT_BUTTON_DOWN \<noteq> 0
                   then flags OR MOUSEEVENTF_RIGHTDOWN else flags);
          flags = (if buttons AND RI_MOUSE_RIGHT_BUTTON_UP \<noteq> 0
                   then flags OR MOUSEEVENTF_RIGHTUP else flags);
          flags = (if buttons AND RI_MOUSE_MIDDLE_BUTTON_DOWN \<noteq> 0
                   then flags OR MOUSEEVENTF_MIDDLEDOWN else flags);
          flags = (if buttons AND RI_MOUSE_MIDDLE_BUTTON_UP \<noteq> 0
                   then flags OR MOUSEEVENTF_MIDDLEUP else flags)
      in flags)"

definition inject_mouse_button :: "int \<Rightarrow> os_call list" where
  "inject_mouse_button buttons =
     (let flags = button_flags buttons
      in if flags = 0 then []
         else [SendInput_mouse (LONG 0) (LONG 0) (DWORD 0) (DWORD flags)])"

section \<open>Router\<close>

text \<open>
  \<open>route_event\<close> returns nothing; it leaves at one of six places. The model names
  the place: the four early returns that drop the event, the end of the function
  after the keyboard or mouse branch (\<open>Delivered\<close>), and the end of the function for
  an event whose \<open>type\<close> is neither (\<open>DiscardedUnknownType\<close>).
\<close>

datatype outcome =
    Delivered
  | DroppedUnmappedDevice
  | DroppedNoSession
  | DroppedProcessDead
  | DroppedWindowUnresolvable
  | DiscardedUnknownType

text \<open>
  The last part of \<open>route_event\<close>, from the comment \<open># Inject the input\<close> on: the
  injection that the event's type selects, into the session's window handle.
\<close>

definition inject_input :: "os_env \<Rightarrow> int \<Rightarrow> event \<Rightarrow> outcome \<times> os_call list" where
  "inject_input os h ev =
     (let event_type = dict_get (ev_type ev) ''''
      in if event_type = ''keyboard'' then
           (let vkey = dict_get (ev_vkey ev) 0
            in (Delivered, inject_keyboard_to_window os h vkey))
         else if event_type = ''mouse'' then
           (let dx = dict_get (ev_dx ev) 0;
                dy = dict_get (ev_dy ev) 0;
                buttons = dict_get (ev_buttons ev) 0
            in (Delivered,
                (if dx \<noteq> 0 \<or> dy \<noteq> 0 then inject_mouse_move dx dy False else [])
                @ (if buttons \<noteq> 0 then inject_mouse_button buttons else [])))
         else (DiscardedUnknownType, []))"

text \<open>
  The session object is shared with \<open>self.user_sessions\<close>, so an assignment to one of
  its fields is an update of the table's entry.
\<close>

definition store_session :: "InputRouter \<Rightarrow> string \<Rightarrow> UserSession \<Rightarrow> InputRouter" where
  "store_session r uid session = r\<lparr>user_sessions := (user_sessions r)(uid \<mapsto> session)\<rparr>"

definition process_terminated :: "os_env \<Rightarrow> UserSession \<Rightarrow> bool" where
  "process_terminated os session =
     (case process session of None \<Rightarrow> False | Some p \<Rightarrow> poll os p \<noteq> None)"

definition route_event :: "os_env \<Rightarrow> InputRouter \<Rightarrow> event \<Rightarrow> outcome \<times> InputRouter \<times> os_call list" where
  "route_event os r ev =
     (let device_id = dict_get (ev_device_id ev) ''''
      in case device_mappings r device_id of
           None \<Rightarrow> (DroppedUnmappedDevice, r, [])
         | Some uid \<Rightarrow>
             if uid = '''' then (DroppedUnmappedDevice, r, [])
             else
               (case user_sessions r uid of
                  None \<Rightarrow> (DroppedNoSession, r, [])
                | Some session \<Rightarrow>
                    if process_terminated os session then
                      (DroppedProcessDead, store_session r uid (session\<lparr>hwnd := None\<rparr>), [])
                    else
                      (let (session1, found) =
                             (if falsy_hwnd (hwnd session) then refresh_window_handle os session
                              else (session, True))
                       in if \<not> found then (DroppedWindowUnresolvable, store_session r uid session1, [])
                          else
                            (let (session2, gone) =
                                   (if \<not> IsWindow os (hwnd_arg (hwnd session1)) then
                                      (let refreshed = fst (refresh_window_handle os session1)
                                       in (refreshed, falsy_hwnd (hwnd refreshed)))
                                    else (session1, False))
                             in if gone then
                                  (DroppedWindowUnresolvable, store_session r uid session2, [])
                                else
                                  (let (out, calls) = inject_input os (hwnd_arg (hwnd session2)) ev
                                   in (out, store_session r uid session2, calls))))))"

section \<open>Event stream\<close>

text \<open>
  The inner loop of \<open>event_loop\<close> and of the test client: the buffer is a Python
  \<open>str\<close>, cut at the first newline by \<open>buffer.split('\n', 1)\<close>. \<open>line.strip()\<close>
  removes the white space \<open>str.strip\<close> knows on both ends; among the characters of
  \<^typ>\<open>char\<close> these are 9 to 13, 28 to 32, 133 and 160.
\<close>

definition newline :: char where
  "newline = CHR 0x0A"

definition is_space :: "char \<Rightarrow> bool" where
  "is_space c = ((of_char c :: nat) \<in> {9, 10, 11, 12, 13, 28, 29, 30, 31, 32, 133, 160})"

definition strip :: "string \<Rightarrow> string" where
  "strip s = rev (dropWhile is_space (rev (dropWhile is_space s)))"

text \<open>
  The exceptions that can be raised inside the inner loop. \<open>JSONDecodeError\<close> is a
  subclass of \<open>ValueError\<close>; an \<open>except json.JSONDecodeError\<close> does not catch a
  \<open>ValueError\<close> that is not one.
\<close>

datatype exception =
    JSONDecodeError
  | ValueError
  | RecursionError
  | AttributeError

text \<open>
  \<open>json.loads\<close> belongs to the standard library and is a parameter of the model. It
  raises \<open>JSONDecodeError\<close> on a text that is not JSON; it raises \<open>RecursionError\<close>
  (nesting too deep) or a plain \<open>ValueError\<close> (an integer literal with too many
  digits) on some others; or it returns a dict (the event), or a value that is not a dict
  (a number, a string, a list, \<open>null\<close>, a boolean).
\<close>

datatype json_value =
    Dict event
  | NotDict

type_synonym json_loads = "string \<Rightarrow> exception + json_value"

text \<open>
  What one line of the stream leads to: \<open>route_event\<close> was called on the decoded
  event (with the outcome and the calls of that routing pass), or
  \<open>JSON parse error\<close> was logged.
\<close>

datatype line_result =
    Routed event outcome "os_call list"
  | ParseErrorLogged

text \<open>
  The body of the inner loop, for one line. The \<open>try\<close> around it catches
  \<open>JSONDecodeError\<close> only: any other exception of \<open>json.loads\<close> leaves the inner
  loop. \<open>route_event\<close> starts with \<open>event.get\<close>, which raises
  \<open>AttributeError\<close> on a value that is not a dict; that exception leaves the inner
  loop as well.
\<close>

definition handle_line ::
    "os_env \<Rightarrow> json_loads \<Rightarrow> InputRouter \<Rightarrow> string
      \<Rightarrow> exception + InputRouter \<times> line_result list" where
  "handle_line os loads r line =
     (if strip line \<noteq> [] then
        (case loads line of
           Inl e \<Rightarrow> (if e = JSONDecodeError then Inr (r, [ParseErrorLogged]) else Inl e)
         | Inr NotDict \<Rightarrow> Inl AttributeError
         | Inr (Dict ev) \<Rightarrow>
             (let (out, r', calls) = route_event os r ev
              in Inr (r', [Routed ev out calls])))
      else Inr (r, []))"

text \<open>
  \<open>event_loop\<close> is left by \<open>break\<close> (\<open>Exited\<close>); as long as it is not, it
  stands before the next \<open>recv\<close> with its buffer (\<open>Running\<close>).
\<close>

datatype loop_status =
    Running string
  | Exited

text \<open>
  \<open>while '\n' in buffer\<close>: the state of the loop afterwards, the router afterwards and
  what the lines led to, in order. An exception that leaves the inner loop is caught by
  \<open>except Exception\<close> of the outer loop, which breaks.
\<close>

function process_lines ::
    "os_env \<Rightarrow> json_loads \<Rightarrow> InputRouter \<Rightarrow> string
      \<Rightarrow> loop_status \<times> InputRouter \<times> line_result list" where
  "process_lines os loads r buffer =
     (if newline \<in> set buffer then
        (let line = takeWhile (\<lambda>c. c \<noteq> newline) buffer;
             buffer' = tl (dropWhile (\<lambda>c. c \<noteq> newline) buffer)
         in case handle_line os loads r line of
              Inl e \<Rightarrow> (Exited, r, [])
            | Inr (r1, t1) \<Rightarrow>
                (let (status, r2, t2) = process_lines os loads r1 buffer'
                 in (status, r2, t1 @ t2)))
      else (Running buffer, r, []))"
  by pat_completeness auto
termination
proof (relation "measure (\<lambda>(os, loads, r, buffer). length buffer)")
  show "wf (measure (\<lambda>(os, loads, r, buffer). length buffer))"
    by simp
next
  fix os :: os_env and loads :: json_loads and r :: InputRouter and buffer :: string
    and line buffer' :: string and r1 :: InputRouter
  assume nl: "newline \<in> set buffer"
    and b': "buffer' = tl (dropWhile (\<lambda>c. c \<noteq> newline) buffer)"
  from nl have "dropWhile (\<lambda>c. c \<noteq> newline) buffer \<noteq> []"
    by simp
  then have "length buffer' < length (dropWhile (\<lambda>c. c \<noteq> newline) buffer)"
    using b' by simp
  also have "\<dots> \<le> length buffer"
    by (rule length_dropWhile_le)
  finally show "((os, loads, r1, buffer'), (os, loads, r, buffer))
      \<in> measure (\<lambda>(os, loads, r, buffer). length buffer)"
    by simp
qed

declare process_lines.simps [simp del]

text \<open>
  One \<open>self.socket.recv(4096)\<close> of the outer loop: bytes that decode as UTF-8 to the
  text given (no bytes at all when the server has closed the connection), bytes that do
  not decode, \<open>socket.timeout\<close>, or any other exception.
\<close>

datatype recv =
    Data string
  | Undecodable
  | Timeout
  | Failure

text \<open>
  \<open>event_loop\<close> over the results of its successive \<open>recv\<close> calls, as long as
  \<open>self.running\<close> holds.
\<close>

fun event_loop ::
    "os_env \<Rightarrow> json_loads \<Rightarrow> InputRouter \<Rightarrow> string \<Rightarrow> recv list
      \<Rightarrow> loop_status \<times> InputRouter \<times> line_result list" where
  "event_loop os loads r buffer [] = (Running buffer, r, [])"
| "event_loop os loads r buffer (Data text # rs) =
     (if text = [] then (Exited, r, [])
      else
        (case process_lines os loads r (buffer @ text) of
           (Exited, r1, t1) \<Rightarrow> (Exited, r1, t1)
         | (Running buffer', r1, t1) \<Rightarrow>
             (let (status, r2, t2) = event_loop os loads r1 buffer' rs
              in (status, r2, t1 @ t2))))"
| "event_loop os loads r buffer (Undecodable # rs) = (Exited, r, [])"
| "event_loop os loads r buffer (Timeout # rs) = event_loop os loads r buffer rs"
| "event_loop os loads r buffer (Failure # rs) = (Exited, r, [])"

section \<open>Scenarios\<close>

text \<open>
  Concrete systems on which the theorems below are exercised. Device \<open>dev-1\<close> belongs
  to \<open>alice\<close>, whose session is attached to window 4242; device \<open>dev-2\<close> belongs to
  \<open>bob\<close>, whose editor the router launched as process 88 and whose window has not
  been found. Virtual key 13 has scan code 28 and character 13.
\<close>

definition scenario_os :: os_env where
  "scenario_os =
     \<lparr>poll = (\<lambda>p. None),
      IsWindow = (\<lambda>h. h = 4242),
      EnumWindows = [4242],
      GetWindowThreadProcessId = (\<lambda>w. 77),
      IsWindowVisible = (\<lambda>w. True),
      IsIconic = (\<lambda>w. False),
      MapVirtualKeyW = (\<lambda>code map_type. if code = 13 then (if map_type = 0 then 28 else 13) else 0)\<rparr>"

definition alice :: UserSession where
  "alice = \<lparr>user_id = ''alice'', process = None, hwnd = Some 4242,
            project_dir = [], editor = ''attached'', pid = 0\<rparr>"

definition bob :: UserSession where
  "bob = \<lparr>user_id = ''bob'', process = Some 1, hwnd = None,
          project_dir = [], editor = ''cursor'', pid = 88\<rparr>"

definition scenario_router :: InputRouter where
  "scenario_router =
     \<lparr>device_mappings = [''dev-1'' \<mapsto> ''alice'', ''dev-2'' \<mapsto> ''bob''],
      user_sessions = [''alice'' \<mapsto> alice, ''bob'' \<mapsto> bob]\<rparr>"

definition key_event :: "string \<Rightarrow> int \<Rightarrow> event" where
  "key_event dev vkey =
     \<lparr>ev_device_id = Some dev, ev_type = Some ''keyboard'', ev_vkey = Some vkey,
      ev_dx = None, ev_dy = None, ev_buttons = None, ev_timestamp = Some 100\<rparr>"


text \<open>The same system after every child process has exited with code 0.\<close>

definition exited_os :: os_env where
  "exited_os = scenario_os\<lparr>poll := (\<lambda>p. Some 0)\<rparr>"

text \<open>The same system after every window has been closed.\<close>

definition closed_os :: os_env where
  "closed_os = scenario_os\<lparr>IsWindow := (\<lambda>h. False), EnumWindows := []\<rparr>"

text \<open>A router in which the session of \<open>bob\<close> holds the window handle given.\<close>

definition bob_router :: "int \<Rightarrow> InputRouter" where
  "bob_router h =
     scenario_router\<lparr>user_sessions := [''alice'' \<mapsto> alice, ''bob'' \<mapsto> bob\<lparr>hwnd := Some h\<rparr>]\<rparr>"

text \<open>
  The streams of the decode-failure scenarios: a valid line for the Enter key from
  \<open>dev-1\<close>, and a decoder that returns the event for that line, the number for the
  line \<open>5\<close>, and raises \<open>JSONDecodeError\<close> on every other text.
\<close>

definition quoted :: "string \<Rightarrow> string" where
  "quoted s = CHR 0x22 # s @ [CHR 0x22]"

definition valid_line :: string where
  "valid_line =
     ''{'' @ quoted ''device_id'' @ '': '' @ quoted ''dev-1'' @ '', ''
       @ quoted ''type'' @ '': '' @ quoted ''keyboard'' @ '', ''
       @ quoted ''vkey'' @ '': 13, ''
       @ quoted ''timestamp'' @ '': 100}''"

definition scenario_loads :: json_loads where
  "scenario_loads line =
     (if line = valid_line then Inr (Dict (key_event ''dev-1'' 13))
      else if line = ''5'' then Inr NotDict
      else Inl JSONDecodeError)"

section \<open>Dropped events\<close>

text \<open>
  C5. An event whose device is not a key of the mapping table is dropped at the first
  return of \<open>route_event\<close>: the outcome is \<open>DroppedUnmappedDevice\<close>, no call is made,
  and the mapping table and the session table are what they were.
\<close>

theorem unmapped_device_dropped:
  assumes "device_mappings r (dict_get (ev_device_id ev) '''') = None"
  shows "route_event os r ev = (DroppedUnmappedDevice, r, [])"
  using assms by (simp add: route_event_def)

theorem unmapped_device_dropped_witness:
  "device_mappings scenario_router (dict_get (ev_device_id (key_event ''dev-9'' 13)) []) = None
   \<and> route_event scenario_os scenario_router (key_event ''dev-9'' 13)
       = (DroppedUnmappedDevice, scenario_router, [])"
proof -
  have unmapped:
    "device_mappings scenario_router (dict_get (ev_device_id (key_event ''dev-9'' 13)) []) = None"
    by (simp add: scenario_router_def key_event_def dict_get_def)
  from unmapped unmapped_device_dropped [OF unmapped, of scenario_os] show ?thesis
    by simp
qed

section \<open>Routing: general facts\<close>

text \<open>The three components of a routing pass.\<close>
lemma route_event_components:
  "route_event os r ev = (fst (route_event os r ev), fst (snd (route_event os r ev)), snd (snd (route_event os r ev)))"
  by simp

text \<open>
  A routing pass never touches the mapping table, and it either drops the event without
  any call or ends in \<open>inject_input\<close> on the window handle that the device's session
  holds afterwards.
\<close>
lemma route_event_shape:
  assumes "route_event os r ev = (out, r', calls)"
  shows "device_mappings r' = device_mappings r
       \<and> ((calls = [] \<and> out \<in> {DroppedUnmappedDevice, DroppedNoSession, DroppedProcessDead, DroppedWindowUnresolvable})
          \<or> (\<exists>uid session.
                device_mappings r (dict_get (ev_device_id ev) []) = Some uid
              \<and> user_sessions r' uid = Some session
              \<and> (out, calls) = inject_input os (hwnd_arg (hwnd session)) ev))"
  using assms
  by (auto simp add: route_event_def store_session_def Let_def
      split: option.splits if_splits prod.splits)

text \<open>
  C6. When the session of the event's device owns a process and that process has exited
  (\<open>poll()\<close> returns its exit code), \<open>route_event\<close> leaves at its third return:
  the outcome is \<open>DroppedProcessDead\<close>, no call is made, and the session's window
  handle is \<open>None\<close> afterwards.
\<close>
theorem process_dead_dropped:
  assumes "device_mappings r (dict_get (ev_device_id ev) []) = Some uid"
    and "uid \<noteq> []"
    and "user_sessions r uid = Some session"
    and "process session = Some p"
    and "poll os p = Some code"
  shows "\<exists>r'. route_event os r ev = (DroppedProcessDead, r', [])
           \<and> device_mappings r' = device_mappings r
           \<and> (\<exists>s'. user_sessions r' uid = Some s' \<and> hwnd s' = None)"
  using assms by (simp add: route_event_def process_terminated_def store_session_def)

text \<open>The editor of \<open>bob\<close> has exited while his session still holds handle 4242.\<close>
theorem process_dead_dropped_witness:
  "device_mappings (bob_router 4242) (dict_get (ev_device_id (key_event ''dev-2'' 13)) []) = Some ''bob''
   \<and> user_sessions (bob_router 4242) ''bob'' = Some (bob\<lparr>hwnd := Some 4242\<rparr>)
   \<and> process (bob\<lparr>hwnd := Some 4242\<rparr>) = Some 1
   \<and> poll exited_os 1 = Some 0
   \<and> (\<exists>r'. route_event exited_os (bob_router 4242) (key_event ''dev-2'' 13) = (DroppedProcessDead, r', [])
           \<and> device_mappings r' = device_mappings (bob_router 4242)
           \<and> (\<exists>s'. user_sessions r' ''bob'' = Some s' \<and> hwnd s' = None))"
proof -
  have m: "device_mappings (bob_router 4242) (dict_get (ev_device_id (key_event ''dev-2'' 13)) []) = Some ''bob''"
    by (simp add: bob_router_def scenario_router_def key_event_def dict_get_def)
  have u: "''bob'' \<noteq> []" by simp
  have s: "user_sessions (bob_router 4242) ''bob'' = Some (bob\<lparr>hwnd := Some 4242\<rparr>)"
    by (simp add: bob_router_def)
  have p: "process (bob\<lparr>hwnd := Some 4242\<rparr>) = Some 1"
    by (simp add: bob_def)
  have e: "poll exited_os 1 = Some 0"
    by (simp add: exited_os_def)
  from process_dead_dropped [OF m u s p e] m s p e show ?thesis
    by blast
qed

section \<open>Keyboard delivery\<close>

text \<open>
  C1. Whatever a routing pass does for a keyboard event, every call it makes is a
  \<open>PostMessageW\<close> to the window handle held by the session to which the event's
  device is mapped: no \<open>SendInput\<close>, no \<open>SetForegroundWindow\<close>, no
  \<open>ShowWindow\<close>, and no message to any other window.
\<close>
theorem keyboard_posted_to_session_window_only:
  assumes "dict_get (ev_type ev) [] = ''keyboard''"
    and "route_event os r ev = (out, r', calls)"
    and "c \<in> set calls"
  shows "\<exists>uid session msg wparam lparam.
           device_mappings r (dict_get (ev_device_id ev) []) = Some uid
         \<and> user_sessions r' uid = Some session
         \<and> c = PostMessageW (hwnd_arg (hwnd session)) msg wparam lparam"
proof -
  from route_event_shape [OF assms(2)] assms(3)
  obtain uid session where
    m: "device_mappings r (dict_get (ev_device_id ev) []) = Some uid"
    and s: "user_sessions r' uid = Some session"
    and i: "(out, calls) = inject_input os (hwnd_arg (hwnd session)) ev"
    by auto
  from i assms(1) have "calls = inject_keyboard_to_window os (hwnd_arg (hwnd session)) (dict_get (ev_vkey ev) 0)"
    by (simp add: inject_input_def)
  with assms(3) have "\<exists>msg wparam lparam. c = PostMessageW (hwnd_arg (hwnd session)) msg wparam lparam"
    by (auto simp add: inject_keyboard_to_window_def Let_def split: if_splits)
  with m s show ?thesis
    by blast
qed

text \<open>The Enter key from \<open>dev-1\<close>, routed to the window of \<open>alice\<close>.\<close>
lemma scenario_key_route:
  "route_event scenario_os scenario_router (key_event ''dev-1'' 13)
     = (Delivered,
        fst (snd (route_event scenario_os scenario_router (key_event ''dev-1'' 13))),
        [PostMessageW 4242 WM_KEYDOWN 13 (lparam_down 28),
         PostMessageW 4242 WM_CHAR 13 (lparam_down 28),
         PostMessageW 4242 WM_KEYUP 13 (lparam_up 28)])"
  by (simp add: route_event_def scenario_os_def scenario_router_def key_event_def alice_def
      dict_get_def process_terminated_def falsy_hwnd_def hwnd_arg_def inject_input_def
      inject_keyboard_to_window_def store_session_def)

theorem keyboard_posted_to_session_window_only_witness:
  "dict_get (ev_type (key_event ''dev-1'' 13)) [] = ''keyboard''
   \<and> PostMessageW 4242 WM_KEYUP 13 (lparam_up 28)
       \<in> set (snd (snd (route_event scenario_os scenario_router (key_event ''dev-1'' 13))))
   \<and> (\<exists>uid session msg wparam lparam.
         device_mappings scenario_router (dict_get (ev_device_id (key_event ''dev-1'' 13)) []) = Some uid
       \<and> user_sessions (fst (snd (route_event scenario_os scenario_router (key_event ''dev-1'' 13)))) uid
           = Some session
       \<and> PostMessageW 4242 WM_KEYUP 13 (lparam_up 28)
           = PostMessageW (hwnd_arg (hwnd session)) msg wparam lparam)"
proof -
  have k: "dict_get (ev_type (key_event ''dev-1'' 13)) [] = ''keyboard''"
    by (simp add: key_event_def dict_get_def)
  have c: "PostMessageW 4242 WM_KEYUP 13 (lparam_up 28)
       \<in> set (snd (snd (route_event scenario_os scenario_router (key_event ''dev-1'' 13))))"
    by (subst scenario_key_route) simp
  from keyboard_posted_to_session_window_only [OF k route_event_components c] k c show ?thesis
    by blast
qed

text \<open>The bit fields of the two \<open>lParam\<close> values, for any scan code.\<close>
lemma take_bit_lparam_down: "take_bit 16 (lparam_down sc) = 1"
  by (rule bit_eqI)
    (auto simp add: lparam_down_def bit_take_bit_iff bit_or_iff bit_push_bit_iff bit_1_iff)

lemma take_bit_lparam_up: "take_bit 16 (lparam_up sc) = 1"
  by (rule bit_eqI)
    (auto simp add: lparam_up_def bit_take_bit_iff bit_or_iff bit_push_bit_iff bit_1_iff)

lemma scan_field_lparam_down: "take_bit 8 (drop_bit 16 (lparam_down sc)) = take_bit 8 sc"
  by (rule bit_eqI)
    (auto simp add: lparam_down_def bit_take_bit_iff bit_drop_bit_eq bit_or_iff
      bit_push_bit_iff bit_1_iff)

lemma scan_field_lparam_up: "take_bit 8 (drop_bit 16 (lparam_up sc)) = take_bit 8 sc"
  by (rule bit_eqI)
    (auto simp add: lparam_up_def bit_take_bit_iff bit_drop_bit_eq bit_or_iff
      bit_push_bit_iff bit_1_iff)

lemma state_bits_lparam_down:
  "bit (lparam_down sc) 30 = bit sc 14" "bit (lparam_down sc) 31 = bit sc 15"
  by (simp_all add: lparam_down_def bit_or_iff bit_push_bit_iff bit_1_iff)

lemma state_bits_lparam_up: "bit (lparam_up sc) 30" "bit (lparam_up sc) 31"
  by (simp_all add: lparam_up_def bit_or_iff bit_push_bit_iff bit_1_iff)

text \<open>A scan code of one byte fills bits 0 to 7 only.\<close>
lemma byte_high_bits_clear:
  fixes sc :: int
  assumes "0 \<le> sc" and "sc < 256"
  shows "take_bit 8 sc = sc" and "\<not> bit sc 14" and "\<not> bit sc 15"
proof -
  show eq: "take_bit 8 sc = sc"
    using assms by (simp add: take_bit_int_eq_self)
  have "bit sc n \<Longrightarrow> n < 8" for n
  proof -
    assume "bit sc n"
    with eq have "bit (take_bit 8 sc) n" by simp
    then show "n < 8" by (simp add: bit_take_bit_iff)
  qed
  then show "\<not> bit sc 14" and "\<not> bit sc 15"
    by fastforce+
qed

text \<open>
  C3. A keyboard event that is delivered makes \<open>inject_keyboard_to_window\<close> post, to
  one window and in this order, one \<open>WM_KEYDOWN\<close>, one \<open>WM_CHAR\<close> exactly when
  \<open>MapVirtualKeyW(vkey, 2)\<close> is positive, and one \<open>WM_KEYUP\<close>. With a scan code
  of one byte, as \<open>MapVirtualKeyW(vkey, 0)\<close> returns it, both \<open>lParam\<close> values
  have repeat count 1 in bits 0 to 15 and the scan code in bits 16 to 23; bits 30 and
  31 are clear in the one sent with key-down (and with the character) and set in the
  one sent with key-up.
\<close>
theorem keyboard_message_sequence:
  assumes "dict_get (ev_type ev) [] = ''keyboard''"
    and "route_event os r ev = (Delivered, r', calls)"
    and "vkey = dict_get (ev_vkey ev) 0"
    and "scan_code = MapVirtualKeyW os vkey 0"
    and "char_code = MapVirtualKeyW os vkey 2"
    and "0 \<le> scan_code" and "scan_code < 256"
  shows "(\<exists>h. calls =
            [PostMessageW h WM_KEYDOWN vkey (lparam_down scan_code)]
            @ (if char_code > 0 then [PostMessageW h WM_CHAR char_code (lparam_down scan_code)] else [])
            @ [PostMessageW h WM_KEYUP vkey (lparam_up scan_code)])
       \<and> take_bit 16 (lparam_down scan_code) = 1
       \<and> take_bit 8 (drop_bit 16 (lparam_down scan_code)) = scan_code
       \<and> \<not> bit (lparam_down scan_code) 30 \<and> \<not> bit (lparam_down scan_code) 31
       \<and> take_bit 16 (lparam_up scan_code) = 1
       \<and> take_bit 8 (drop_bit 16 (lparam_up scan_code)) = scan_code
       \<and> bit (lparam_up scan_code) 30 \<and> bit (lparam_up scan_code) 31"
proof -
  from route_event_shape [OF assms(2)]
  obtain h where "(Delivered, calls) = inject_input os h ev"
    by auto
  with assms(1,3,4,5) have "calls =
            [PostMessageW h WM_KEYDOWN vkey (lparam_down scan_code)]
            @ (if char_code > 0 then [PostMessageW h WM_CHAR char_code (lparam_down scan_code)] else [])
            @ [PostMessageW h WM_KEYUP vkey (lparam_up scan_code)]"
    by (simp add: inject_input_def inject_keyboard_to_window_def Let_def)
  then have sequence: "\<exists>h. calls =
            [PostMessageW h WM_KEYDOWN vkey (lparam_down scan_code)]
            @ (if char_code > 0 then [PostMessageW h WM_CHAR char_code (lparam_down scan_code)] else [])
            @ [PostMessageW h WM_KEYUP vkey (lparam_up scan_code)]"
    by blast
  note byte = byte_high_bits_clear [OF assms(6,7)]
  from sequence show ?thesis
    by (simp add: take_bit_lparam_down take_bit_lparam_up scan_field_lparam_down
        scan_field_lparam_up state_bits_lparam_down state_bits_lparam_up byte)
qed

theorem keyboard_message_sequence_witness:
  "dict_get (ev_type (key_event ''dev-1'' 13)) [] = ''keyboard''
   \<and> fst (route_event scenario_os scenario_router (key_event ''dev-1'' 13)) = Delivered
   \<and> MapVirtualKeyW scenario_os 13 0 = 28 \<and> MapVirtualKeyW scenario_os 13 2 = 13
   \<and> snd (snd (route_event scenario_os scenario_router (key_event ''dev-1'' 13)))
       = [PostMessageW 4242 256 13 1835009, PostMessageW 4242 258 13 1835009,
          PostMessageW 4242 257 13 3223060481]
   \<and> take_bit 8 (drop_bit 16 (lparam_down 28)) = 28
   \<and> \<not> bit (lparam_down 28) 30 \<and> \<not> bit (lparam_down 28) 31
   \<and> take_bit 8 (drop_bit 16 (lparam_up 28)) = 28
   \<and> bit (lparam_up 28) 30 \<and> bit (lparam_up 28) 31"
proof -
  let ?res = "route_event scenario_os scenario_router (key_event ''dev-1'' 13)"
  have k: "dict_get (ev_type (key_event ''dev-1'' 13)) [] = ''keyboard''"
    by (simp add: key_event_def dict_get_def)
  have d: "fst ?res = Delivered"
    by (subst scenario_key_route) simp
  have calls: "snd (snd ?res)
       = [PostMessageW 4242 256 13 1835009, PostMessageW 4242 258 13 1835009,
          PostMessageW 4242 257 13 3223060481]"
    by (subst scenario_key_route)
      (simp add: WM_KEYDOWN_def WM_CHAR_def WM_KEYUP_def lparam_down_def lparam_up_def)
  have r: "?res = (Delivered, fst (snd ?res), snd (snd ?res))"
    using d route_event_components [of scenario_os scenario_router "key_event ''dev-1'' 13"] by simp
  have v: "13 = dict_get (ev_vkey (key_event ''dev-1'' 13)) 0"
    by (simp add: key_event_def dict_get_def)
  have sc: "(28::int) = MapVirtualKeyW scenario_os 13 0"
    and cc: "(13::int) = MapVirtualKeyW scenario_os 13 2"
    by (simp_all add: scenario_os_def)
  from keyboard_message_sequence [OF k r v sc cc] k d calls sc cc show ?thesis
    by simp
qed

section \<open>Mouse delivery\<close>

text \<open>
  A \<open>LONG\<close> field holds a value of the signed 32-bit range, and it holds the value
  assigned whenever that value lies in the range.
\<close>
lemma LONG_range: "- 2147483648 \<le> LONG v \<and> LONG v < 2147483648"
  using signed_take_bit_int_greater_eq_minus_exp [of 31 v] signed_take_bit_int_less_exp [of 31 v]
  by (simp add: LONG_def)












section \<open>Window handles\<close>

text \<open>
  C9, as amended. When the session of the event's device does not own a process that
  has exited, and holds a window handle that \<open>IsWindow\<close> accepts (the null handle
  is never a window), a routing pass leaves the whole session table, and so this
  handle, as it was.
\<close>
theorem live_handle_unchanged:
  assumes "device_mappings r (dict_get (ev_device_id ev) []) = Some uid"
    and "user_sessions r uid = Some session"
    and "\<not> process_terminated os session"
    and "hwnd session = Some h"
    and "IsWindow os h"
    and "\<not> IsWindow os 0"
    and "route_event os r ev = (out, r', calls)"
  shows "user_sessions r' = user_sessions r \<and> map_option hwnd (user_sessions r' uid) = Some (Some h)"
proof -
  from assms(5,6) have "h \<noteq> 0"
    by auto
  with assms show ?thesis
    by (auto simp add: route_event_def store_session_def falsy_hwnd_def hwnd_arg_def Let_def
        split: prod.splits if_splits)
qed

theorem live_handle_unchanged_witness:
  "device_mappings scenario_router (dict_get (ev_device_id (key_event ''dev-1'' 13)) []) = Some ''alice''
   \<and> user_sessions scenario_router ''alice'' = Some alice
   \<and> \<not> process_terminated scenario_os alice
   \<and> hwnd alice = Some 4242
   \<and> IsWindow scenario_os 4242
   \<and> \<not> IsWindow scenario_os 0
   \<and> user_sessions (fst (snd (route_event scenario_os scenario_router (key_event ''dev-1'' 13))))
       = user_sessions scenario_router
   \<and> map_option hwnd
        (user_sessions (fst (snd (route_event scenario_os scenario_router (key_event ''dev-1'' 13)))) ''alice'')
       = Some (Some 4242)"
proof -
  have m: "device_mappings scenario_router (dict_get (ev_device_id (key_event ''dev-1'' 13)) []) = Some ''alice''"
    by (simp add: scenario_router_def key_event_def dict_get_def)
  have s: "user_sessions scenario_router ''alice'' = Some alice"
    by (simp add: scenario_router_def)
  have p: "\<not> process_terminated scenario_os alice"
    by (simp add: process_terminated_def alice_def)
  have h: "hwnd alice = Some 4242"
    by (simp add: alice_def)
  have w: "IsWindow scenario_os 4242" and n: "\<not> IsWindow scenario_os 0"
    by (simp_all add: scenario_os_def)
  from live_handle_unchanged [OF m s p h w n route_event_components] m s p h w n
  show ?thesis
    by simp
qed

text \<open>
  C9 as stated fails: \<open>bob\<close> holds handle 4242, which is a window, but his editor
  has exited, and routing his key sets the handle to \<open>None\<close>.
\<close>
theorem live_handle_invalidated_counterexample:
  "device_mappings (bob_router 4242) (dict_get (ev_device_id (key_event ''dev-2'' 13)) []) = Some ''bob''
   \<and> map_option hwnd (user_sessions (bob_router 4242) ''bob'') = Some (Some 4242)
   \<and> IsWindow exited_os 4242
   \<and> map_option hwnd
        (user_sessions (fst (snd (route_event exited_os (bob_router 4242) (key_event ''dev-2'' 13)))) ''bob'')
       = Some None"
  by (simp add: route_event_def bob_router_def scenario_router_def key_event_def dict_get_def
      exited_os_def scenario_os_def bob_def process_terminated_def store_session_def)

text \<open>
  C2. The session of \<open>bob\<close> holds handle 999, which is no window any more; his
  editor runs, but none of its windows is found, so \<open>_refresh_window_handle\<close>
  returns \<open>False\<close> and leaves the handle in place. The test \<open>not session.hwnd\<close>
  that follows does not fire, and the key is posted to handle 999.
\<close>
theorem stale_handle_of_launched_session_injected:
  "poll scenario_os 1 = None
   \<and> hwnd (bob\<lparr>hwnd := Some 999\<rparr>) = Some 999
   \<and> \<not> IsWindow scenario_os 999
   \<and> refresh_window_handle scenario_os (bob\<lparr>hwnd := Some 999\<rparr>) = (bob\<lparr>hwnd := Some 999\<rparr>, False)
   \<and> fst (route_event scenario_os (bob_router 999) (key_event ''dev-2'' 13)) = Delivered
   \<and> snd (snd (route_event scenario_os (bob_router 999) (key_event ''dev-2'' 13)))
       = [PostMessageW 999 WM_KEYDOWN 13 (lparam_down 28),
          PostMessageW 999 WM_CHAR 13 (lparam_down 28),
          PostMessageW 999 WM_KEYUP 13 (lparam_up 28)]"
  by (simp add: route_event_def bob_router_def scenario_router_def key_event_def dict_get_def
      scenario_os_def bob_def process_terminated_def store_session_def falsy_hwnd_def
      hwnd_arg_def refresh_window_handle_def find_window_by_pid_def inject_input_def
      inject_keyboard_to_window_def)

text \<open>
  C10. The session of \<open>alice\<close> is attached (no process) and its window 4242 has been
  closed. The refresh fails and changes nothing, and the key is still posted to 4242.
\<close>
theorem stale_handle_of_attached_session_injected:
  "process alice = None
   \<and> hwnd alice = Some 4242
   \<and> \<not> IsWindow closed_os 4242
   \<and> refresh_window_handle closed_os alice = (alice, False)
   \<and> fst (route_event closed_os scenario_router (key_event ''dev-1'' 13)) = Delivered
   \<and> snd (snd (route_event closed_os scenario_router (key_event ''dev-1'' 13)))
       = [PostMessageW 4242 WM_KEYDOWN 13 (lparam_down 28),
          PostMessageW 4242 WM_CHAR 13 (lparam_down 28),
          PostMessageW 4242 WM_KEYUP 13 (lparam_up 28)]"
  by (simp add: route_event_def scenario_router_def key_event_def dict_get_def
      closed_os_def scenario_os_def alice_def process_terminated_def store_session_def falsy_hwnd_def
      hwnd_arg_def refresh_window_handle_def inject_input_def
      inject_keyboard_to_window_def)

text \<open>
  What does hold for a session without a process: the refresh always fails and leaves
  the session alone, and an event for it is dropped, with nothing changed, once the
  handle is absent.
\<close>
lemma refresh_attached_session:
  "process session = None \<Longrightarrow> refresh_window_handle os session = (session, False)"
  by (simp add: refresh_window_handle_def)

lemma attached_session_without_handle_dropped:
  assumes "device_mappings r (dict_get (ev_device_id ev) []) = Some uid"
    and "uid \<noteq> []"
    and "user_sessions r uid = Some session"
    and "process session = None"
    and "falsy_hwnd (hwnd session)"
  shows "route_event os r ev = (DroppedWindowUnresolvable, r, [])"
proof -
  from assms(3) have "(user_sessions r)(uid \<mapsto> session) = user_sessions r"
    by (simp add: map_upd_triv)
  with assms show ?thesis
    by (simp add: route_event_def process_terminated_def refresh_window_handle_def
        store_session_def)
qed

text \<open>
  Likewise for any session whose handle is absent and for whose process no window is
  found: the event is dropped and the handle stays absent.
\<close>
lemma unresolvable_window_dropped:
  assumes "device_mappings r (dict_get (ev_device_id ev) []) = Some uid"
    and "uid \<noteq> []"
    and "user_sessions r uid = Some session"
    and "\<not> process_terminated os session"
    and "falsy_hwnd (hwnd session)"
    and "find_window_by_pid os (pid session) = None"
  shows "route_event os r ev = (DroppedWindowUnresolvable, r, [])"
proof -
  from assms(3) have "(user_sessions r)(uid \<mapsto> session) = user_sessions r"
    by (simp add: map_upd_triv)
  with assms show ?thesis
    by (simp add: route_event_def refresh_window_handle_def store_session_def
        split: option.splits)
qed

section \<open>Event stream: decode failures\<close>

text \<open>A buffer without a newline is left as it is.\<close>
lemma process_lines_no_newline:
  "newline \<notin> set buffer \<Longrightarrow> process_lines os loads r buffer = (Running buffer, r, [])"
  by (subst process_lines.simps) simp

text \<open>
  One turn of the inner loop: the text before the first newline is handled as a line, the
  loop goes on with what follows that newline.
\<close>
lemma process_lines_line:
  assumes "newline \<notin> set line"
  shows "process_lines os loads r (line @ newline # rest) =
     (case handle_line os loads r line of
        Inl e \<Rightarrow> (Exited, r, [])
      | Inr (r1, t1) \<Rightarrow>
          (let (status, r2, t2) = process_lines os loads r1 rest
           in (status, r2, t1 @ t2)))"
proof -
  from assms have t: "takeWhile (\<lambda>c. c \<noteq> newline) (line @ newline # rest) = line"
    by (induction line) auto
  from assms have d: "dropWhile (\<lambda>c. c \<noteq> newline) (line @ newline # rest) = newline # rest"
    by (induction line) auto
  show ?thesis
    by (subst process_lines.simps) (simp add: t d Let_def)
qed

text \<open>A buffer that holds a newline, cut at the first one.\<close>
lemma split_at_newline:
  assumes "newline \<in> set buffer"
  obtains line rest where "buffer = line @ newline # rest" and "newline \<notin> set line"
proof -
  from assms obtain line rest where "buffer = line @ newline # rest" and "newline \<notin> set line"
    by (auto dest: split_list_first)
  then show thesis
    by (rule that)
qed

text \<open>
  Text arriving later does not change what the lines already complete lead to: the inner
  loop over \<open>b @ c\<close> is the inner loop over \<open>b\<close>, followed, unless an exception
  ended the loop, by the inner loop over what \<open>b\<close> left and \<open>c\<close>.
\<close>
lemma process_lines_append:
  "process_lines os loads r (b @ c) =
     (case process_lines os loads r b of
        (Exited, r1, t1) \<Rightarrow> (Exited, r1, t1)
      | (Running b1, r1, t1) \<Rightarrow>
          (let (status, r2, t2) = process_lines os loads r1 (b1 @ c)
           in (status, r2, t1 @ t2)))"
proof (induction "length b" arbitrary: b r rule: less_induct)
  case less
  show ?case
  proof (cases "newline \<in> set b")
    case False
    then show ?thesis
      by (simp add: process_lines_no_newline split: prod.splits)
  next
    case True
    then obtain line rest where b: "b = line @ newline # rest" and l: "newline \<notin> set line"
      by (rule split_at_newline)
    from b have "length rest < length b"
      by simp
    note ih = less.hyps [OF this]
    show ?thesis
    proof (cases "handle_line os loads r line")
      case (Inl e)
      with l show ?thesis
        by (simp add: b process_lines_line)
    next
      case (Inr p)
      obtain r1 t1 where p: "p = (r1, t1)"
        by (cases p)
      have "process_lines os loads r ((line @ newline # rest) @ c)
              = process_lines os loads r (line @ newline # (rest @ c))"
        by simp
      also have "\<dots> = (let (status, r2, t2) = process_lines os loads r1 (rest @ c)
                        in (status, r2, t1 @ t2))"
        using l Inr p by (simp add: process_lines_line)
      finally show ?thesis
        using l Inr p
        by (simp add: b process_lines_line ih [of r1] split: prod.splits loop_status.splits)
    qed
  qed
qed

text \<open>What the inner loop leaves in the buffer holds no newline.\<close>
lemma process_lines_rest_no_newline:
  "process_lines os loads r b = (Running b', r', t) \<Longrightarrow> newline \<notin> set b'"
proof (induction "length b" arbitrary: b r t rule: less_induct)
  case less
  show ?case
  proof (cases "newline \<in> set b")
    case False
    with less.prems show ?thesis
      by (simp add: process_lines_no_newline)
  next
    case True
    then obtain line rest where b: "b = line @ newline # rest" and l: "newline \<notin> set line"
      by (rule split_at_newline)
    from b have "length rest < length b"
      by simp
    note ih = less.hyps [OF this]
    from less.prems l obtain r1 t2 where "process_lines os loads r1 rest = (Running b', r', t2)"
      by (auto simp add: b process_lines_line split: sum.splits prod.splits)
    then show ?thesis
      by (rule ih)
  qed
qed

text \<open>After a text that ends with a newline the buffer is empty.\<close>
lemma process_lines_complete:
  "pre = [] \<or> last pre = newline \<Longrightarrow> process_lines os loads r pre = (Running b', r', t)
    \<Longrightarrow> b' = []"
proof (induction "length pre" arbitrary: pre r t rule: less_induct)
  case less
  show ?case
  proof (cases "newline \<in> set pre")
    case False
    with less.prems(1) have "pre = []"
      by (cases pre rule: rev_cases) auto
    with less.prems(2) show ?thesis
      by (simp add: process_lines_no_newline)
  next
    case True
    then obtain line rest where b: "pre = line @ newline # rest" and l: "newline \<notin> set line"
      by (rule split_at_newline)
    from b have "length rest < length pre"
      by simp
    note ih = less.hyps [OF this]
    from less.prems(1) b have "rest = [] \<or> last rest = newline"
      by (auto split: if_splits)
    then have c: "rest = [] \<or> last rest = newline"
      by simp
    from less.prems(2) l obtain r1 t2 where "process_lines os loads r1 rest = (Running b', r', t2)"
      by (auto simp add: b process_lines_line split: sum.splits prod.splits)
    with c show ?thesis
      by (rule ih)
  qed
qed

text \<open>
  How the text is cut into chunks by \<open>recv\<close> does not matter: as long as no chunk is
  empty, \<open>event_loop\<close> does on the chunks what the inner loop does on their
  concatenation.
\<close>
lemma event_loop_chunks:
  "newline \<notin> set b \<Longrightarrow> [] \<notin> set cs \<Longrightarrow>
     event_loop os loads r b (map Data cs) = process_lines os loads r (b @ concat cs)"
proof (induction cs arbitrary: b r)
  case Nil
  then show ?case
    by (simp add: process_lines_no_newline)
next
  case (Cons c cs)
  from Cons.prems have c: "c \<noteq> []" and cs: "[] \<notin> set cs"
    by auto
  obtain s1 r1 t1 where p: "process_lines os loads r (b @ c) = (s1, r1, t1)"
    by (cases "process_lines os loads r (b @ c)")
  have a: "process_lines os loads r (b @ concat (c # cs))
             = (case process_lines os loads r (b @ c) of
                  (Exited, r1, t1) \<Rightarrow> (Exited, r1, t1)
                | (Running b1, r1, t1) \<Rightarrow>
                    (let (status, r2, t2) = process_lines os loads r1 (b1 @ concat cs)
                     in (status, r2, t1 @ t2)))"
    using process_lines_append [of os loads r "b @ c" "concat cs"] by simp
  show ?case
  proof (cases s1)
    case Exited
    with p c a show ?thesis
      by simp
  next
    case (Running b1)
    with p have "newline \<notin> set b1"
      by (auto dest: process_lines_rest_no_newline)
    from Cons.IH [OF this cs] p c a Running show ?thesis
      by simp
  qed
qed

text \<open>A \<open>recv\<close> that times out changes nothing.\<close>
lemma event_loop_timeouts:
  "event_loop os loads r b (filter (\<lambda>x. x \<noteq> Timeout) rs) = event_loop os loads r b rs"
proof (induction rs arbitrary: b r)
  case Nil
  show ?case
    by simp
next
  case (Cons x rs)
  show ?case
  proof (cases x)
    case (Data chunk)
    then show ?thesis
      by (simp add: Cons.IH split: prod.splits loop_status.splits)
  qed (simp_all add: Cons.IH)
qed

text \<open>
  Where the line is malformed JSON, the failure is confined to the line. Let the
  \<open>recv\<close> calls return the chunks \<open>chunks\<close> (none of them empty), with
  any number of timeouts in between, and let the chunks spell a text in which a line
  \<open>bad\<close>, not blank, on which \<open>json.loads\<close> raises \<open>JSONDecodeError\<close>,
  stands after the complete lines \<open>pre\<close> and before the text \<open>post\<close>; let the
  lines of \<open>pre\<close> not end the loop. Then \<open>event_loop\<close> handles \<open>pre\<close>, logs one
  parse error for \<open>bad\<close> and handles \<open>post\<close> from the router state that
  \<open>pre\<close> left, exactly as if \<open>post\<close> had followed \<open>pre\<close> directly: the loop
  ends in the status, the router state and the line results of the stream without the
  line \<open>bad\<close>, with the one log entry in between. The failure neither ends the loop nor
  touches the router, the buffer or any other line.
\<close>
lemma json_decode_error_confined_to_line:
  assumes "filter (\<lambda>x. x \<noteq> Timeout) rs = map Data chunks"
    and "[] \<notin> set chunks"
    and "concat chunks = pre @ bad @ newline # post"
    and "pre = [] \<or> last pre = newline"
    and "newline \<notin> set bad"
    and "strip bad \<noteq> []"
    and "loads bad = Inl JSONDecodeError"
    and "process_lines os loads r pre = (Running b1, r1, t1)"
    and "process_lines os loads r1 post = (status, r2, t2)"
  shows "event_loop os loads r [] rs = (status, r2, t1 @ ParseErrorLogged # t2)
       \<and> process_lines os loads r (pre @ post) = (status, r2, t1 @ t2)"
proof -
  from assms(4,8) have b1: "b1 = []"
    by (rule process_lines_complete)
  from assms(6,7) have h: "handle_line os loads r1 bad = Inr (r1, [ParseErrorLogged])"
    by (simp add: handle_line_def)
  with assms(5,9)
  have "process_lines os loads r1 (bad @ newline # post) = (status, r2, ParseErrorLogged # t2)"
    by (simp add: process_lines_line)
  with assms(8) b1
  have "process_lines os loads r (pre @ bad @ newline # post)
          = (status, r2, t1 @ ParseErrorLogged # t2)"
    by (simp add: process_lines_append [of os loads r pre])
  moreover from assms(2,3)
  have "event_loop os loads r [] (map Data chunks)
          = process_lines os loads r (pre @ bad @ newline # post)"
    by (simp add: event_loop_chunks)
  moreover from assms(1)
  have "event_loop os loads r [] rs = event_loop os loads r [] (map Data chunks)"
    using event_loop_timeouts [of os loads r "[]" rs] by simp
  moreover from assms(8,9) b1
  have "process_lines os loads r (pre @ post) = (status, r2, t1 @ t2)"
    by (simp add: process_lines_append [of os loads r pre])
  ultimately show ?thesis
    by simp
qed

text \<open>
  The Enter key from \<open>dev-1\<close> is delivered to the window of \<open>alice\<close> and leaves the
  router as it was.
\<close>
lemma scenario_key_route_unchanged:
  "route_event scenario_os scenario_router (key_event ''dev-1'' 13)
     = (Delivered, scenario_router,
        [PostMessageW 4242 WM_KEYDOWN 13 (lparam_down 28),
         PostMessageW 4242 WM_CHAR 13 (lparam_down 28),
         PostMessageW 4242 WM_KEYUP 13 (lparam_up 28)])"
proof -
  have "[''alice'' \<mapsto> alice, ''bob'' \<mapsto> bob](''alice'' \<mapsto> alice)
          = [''alice'' \<mapsto> alice, ''bob'' \<mapsto> bob]"
    by (rule map_upd_triv) simp
  then show ?thesis
    by (simp add: route_event_def scenario_os_def scenario_router_def key_event_def alice_def
        dict_get_def process_terminated_def falsy_hwnd_def hwnd_arg_def inject_input_def
        inject_keyboard_to_window_def store_session_def)
qed

text \<open>The valid line of the scenario holds no newline and is not blank.\<close>
lemma valid_line_no_newline: "newline \<notin> set valid_line"
  by (simp add: valid_line_def quoted_def newline_def)

lemma valid_line_not_blank: "strip valid_line \<noteq> []"
  by (simp add: valid_line_def quoted_def strip_def is_space_def)

text \<open>The valid line alone: one event, routed and delivered.\<close>
lemma scenario_valid_line:
  "process_lines scenario_os scenario_loads scenario_router (valid_line @ [newline])
     = (Running [], scenario_router,
        [Routed (key_event ''dev-1'' 13) Delivered
           [PostMessageW 4242 WM_KEYDOWN 13 (lparam_down 28),
            PostMessageW 4242 WM_CHAR 13 (lparam_down 28),
            PostMessageW 4242 WM_KEYUP 13 (lparam_up 28)]])"
  by (simp add: process_lines_line [OF valid_line_no_newline] handle_line_def
      valid_line_not_blank scenario_loads_def scenario_key_route_unchanged
      process_lines_no_newline)

text \<open>
  The malformed line \<open>{not json\<close> followed by the valid line, received in two chunks
  the first of which ends inside the malformed line, with a timeout between them: one
  parse error is logged, exactly one event is routed (that of the valid line), and the
  loop stands before its next \<open>recv\<close> with an empty buffer.
\<close>
lemma json_decode_error_scenario:
  "filter (\<lambda>x. x \<noteq> Timeout)
       [Data ''{not js'', Timeout, Data (''on'' @ newline # valid_line @ [newline])]
     = map Data [''{not js'', ''on'' @ newline # valid_line @ [newline]]
   \<and> [] \<notin> set [''{not js'', ''on'' @ newline # valid_line @ [newline]]
   \<and> concat [''{not js'', ''on'' @ newline # valid_line @ [newline]]
       = [] @ ''{not json'' @ newline # valid_line @ [newline]
   \<and> newline \<notin> set ''{not json''
   \<and> strip ''{not json'' \<noteq> []
   \<and> scenario_loads ''{not json'' = Inl JSONDecodeError
   \<and> process_lines scenario_os scenario_loads scenario_router []
       = (Running [], scenario_router, [])
   \<and> process_lines scenario_os scenario_loads scenario_router (valid_line @ [newline])
       = (Running [], scenario_router,
          [Routed (key_event ''dev-1'' 13) Delivered
             [PostMessageW 4242 WM_KEYDOWN 13 (lparam_down 28),
              PostMessageW 4242 WM_CHAR 13 (lparam_down 28),
              PostMessageW 4242 WM_KEYUP 13 (lparam_up 28)]])
   \<and> event_loop scenario_os scenario_loads scenario_router []
         [Data ''{not js'', Timeout, Data (''on'' @ newline # valid_line @ [newline])]
       = (Running [], scenario_router,
          [ParseErrorLogged,
           Routed (key_event ''dev-1'' 13) Delivered
             [PostMessageW 4242 WM_KEYDOWN 13 (lparam_down 28),
              PostMessageW 4242 WM_CHAR 13 (lparam_down 28),
              PostMessageW 4242 WM_KEYUP 13 (lparam_up 28)]])"
proof -
  have f: "filter (\<lambda>x. x \<noteq> Timeout)
               [Data ''{not js'', Timeout, Data (''on'' @ newline # valid_line @ [newline])]
             = map Data [''{not js'', ''on'' @ newline # valid_line @ [newline]]"
    by simp
  have c: "[] \<notin> set [''{not js'', ''on'' @ newline # valid_line @ [newline]]"
    by simp
  have s: "concat [''{not js'', ''on'' @ newline # valid_line @ [newline]]
             = [] @ ''{not json'' @ newline # valid_line @ [newline]"
    by simp
  have p: "[] = [] \<or> last [] = newline"
    by simp
  have n: "newline \<notin> set ''{not json''"
    by (simp add: newline_def)
  have b: "strip ''{not json'' \<noteq> []"
    by (simp add: strip_def is_space_def)
  have l: "scenario_loads ''{not json'' = Inl JSONDecodeError"
    by (simp add: scenario_loads_def valid_line_def quoted_def)
  have e: "process_lines scenario_os scenario_loads scenario_router []
             = (Running [], scenario_router, [])"
    by (simp add: process_lines_no_newline)
  from json_decode_error_confined_to_line [OF f c s p n b l e scenario_valid_line]
    f c s n b l e scenario_valid_line
  show ?thesis
    by simp
qed

text \<open>
  A line that fails in any other way ends the loop: when \<open>json.loads\<close> raises an
  exception that is not \<open>JSONDecodeError\<close>, or returns a value that is not a dict (on
  which \<open>route_event\<close> raises \<open>AttributeError\<close>), the exception reaches
  \<open>except Exception\<close> of the outer loop, which breaks. Nothing behind that line is
  handled, whatever it is.
\<close>
lemma other_failure_ends_event_loop:
  assumes "newline \<notin> set bad"
    and "strip bad \<noteq> []"
    and "(\<exists>e. loads bad = Inl e \<and> e \<noteq> JSONDecodeError) \<or> loads bad = Inr NotDict"
  shows "event_loop os loads r [] [Data (bad @ newline # post)] = (Exited, r, [])"
proof -
  from assms(2,3) obtain e where "handle_line os loads r bad = Inl e"
    by (auto simp add: handle_line_def)
  with assms(1) have "process_lines os loads r (bad @ newline # post) = (Exited, r, [])"
    by (simp add: process_lines_line)
  then show ?thesis
    by simp
qed

text \<open>
  C7. The claim fails on the code for a line that does not decode to an event without
  being malformed JSON. One \<open>recv\<close> returns the line \<open>5\<close> followed by the valid
  line. \<open>json.loads\<close> returns the number 5, \<open>route_event\<close> raises
  \<open>AttributeError\<close>, and the loop is left: no event is routed and the valid line is
  lost, while the valid line alone is routed and delivered and leaves the loop running.
\<close>
theorem non_object_line_ends_event_loop:
  "strip ''5'' \<noteq> []
   \<and> scenario_loads ''5'' = Inr NotDict
   \<and> event_loop scenario_os scenario_loads scenario_router []
         [Data (''5'' @ newline # valid_line @ [newline])]
       = (Exited, scenario_router, [])
   \<and> event_loop scenario_os scenario_loads scenario_router [] [Data (valid_line @ [newline])]
       = (Running [], scenario_router,
          [Routed (key_event ''dev-1'' 13) Delivered
             [PostMessageW 4242 WM_KEYDOWN 13 (lparam_down 28),
              PostMessageW 4242 WM_CHAR 13 (lparam_down 28),
              PostMessageW 4242 WM_KEYUP 13 (lparam_up 28)]])"
proof -
  have n: "newline \<notin> set ''5''"
    by (simp add: newline_def)
  have b: "strip ''5'' \<noteq> []"
    by (simp add: strip_def is_space_def)
  have l: "scenario_loads ''5'' = Inr NotDict"
    by (simp add: scenario_loads_def valid_line_def quoted_def)
  from l have "(\<exists>e. scenario_loads ''5'' = Inl e \<and> e \<noteq> JSONDecodeError)
      \<or> scenario_loads ''5'' = Inr NotDict"
    by simp
  with n b
  have lost: "event_loop scenario_os scenario_loads scenario_router []
                [Data (''5'' @ newline # valid_line @ [newline])]
              = (Exited, scenario_router, [])"
    by (rule other_failure_ends_event_loop)
  have alone: "event_loop scenario_os scenario_loads scenario_router []
                 [Data (valid_line @ [newline])]
               = (Running [], scenario_router,
                  [Routed (key_event ''dev-1'' 13) Delivered
                     [PostMessageW 4242 WM_KEYDOWN 13 (lparam_down 28),
                      PostMessageW 4242 WM_CHAR 13 (lparam_down 28),
                      PostMessageW 4242 WM_KEYUP 13 (lparam_up 28)]])"
    using scenario_valid_line by simp
  from b l lost alone show ?thesis
    by (intro conjI)
qed

end
